theory Spec2Isabelle
  imports Complex_Main
begin

section \<open>The trading bot of \<open>trading_bot.py\<close>, embedded in HOL\<close>

text \<open>
  The class \<open>BasicBot\<close> talks to an exchange through a client object and keeps one
  mutable attribute of interest, \<open>time_offset\<close>. The embedding passes the bot's state
  explicitly. Every effect the bot performs (a client call, a read of the local clock,
  a sleep) is appended to a trace, and every logger call to a log, so that statements
  about how many calls were made, and in which order, are statements about the trace.

  A finite Python float is the real number it denotes. Comparison, negation and
  absolute value of floats are exact, so they are the operations on reals; the division
  of \<open>validate_quantity\<close> is the correctly rounded division of IEEE 754 doubles and is
  modelled with its rounding. Python's \<open>int(x)\<close> on a float truncates towards zero.
  The value of \<open>time.time() * 1000\<close> is an input, and its sum with the integer offset
  is the exact sum, which is what the addition of doubles yields whenever that sum is
  a double again.
\<close>

subsection \<open>Exceptions\<close>

text \<open>
  \<open>BinanceAPIException\<close> carries the numeric error code of the exchange. Anything else
  a client call may raise (a connection error or timeout of the HTTP layer, a malformed
  response) is \<open>OtherException\<close>. \<open>ValueError\<close>, \<open>KeyError\<close> and
  \<open>ZeroDivisionError\<close> are raised by the bot's own code.
\<close>

datatype exn =
    BinanceAPIException int
  | ValueError string
  | KeyError string
  | ZeroDivisionError
  | OtherException string

text \<open>\<open>except BinanceAPIException as e\<close> matches that class only; \<open>e.code\<close> is its code.\<close>

fun api_code :: "exn \<Rightarrow> int option" where
  "api_code (BinanceAPIException c) = Some c"
| "api_code _ = None"

subsection \<open>Data exchanged with the client\<close>

record lot_filter =
  filterType :: string
  minQty :: real
  maxQty :: real
  stepSize :: real

record symbol_info =
  info_symbol :: string
  info_status :: string
  info_filters :: "lot_filter list"

record position =
  pos_symbol :: string
  positionAmt :: real

record order =
  orderId :: int
  order_status :: string

text \<open>The keyword arguments of one \<open>futures_create_order\<close> call; an absent keyword is \<open>None\<close>.\<close>

record request =
  req_symbol :: string
  req_side :: string
  req_type :: string
  req_timeInForce :: "string option"
  req_quantity :: real
  req_price :: "real option"
  req_stopPrice :: "real option"
  req_timestamp :: "int option"

subsection \<open>The scripted client and the bot's state\<close>

text \<open>
  The client is a script: the answer of the \<open>n\<close>-th call of each method (counting from
  0), either a value or the exception raised. \<open>time_ms gw n\<close> is the value of
  \<open>time.time() * 1000\<close> at the \<open>n\<close>-th read of the local clock.
\<close>

record gateway =
  get_server_time :: "nat \<Rightarrow> exn + int"
  time_ms :: "nat \<Rightarrow> real"
  futures_exchange_info :: "nat \<Rightarrow> exn + symbol_info list"
  futures_create_order :: "nat \<Rightarrow> request \<Rightarrow> exn + order"
  futures_position_information :: "nat \<Rightarrow> exn + position list"

datatype event =
    GetServerTime
  | TimeRead
  | ExchangeInfo
  | CreateOrder request
  | PositionInformation
  | Sleep nat

datatype log_entry =
    Info string
  | Warning string exn
  | Error string exn

record bot =
  time_offset :: int
  trace :: "event list"
  logged :: "log_entry list"

definition emit :: "event \<Rightarrow> bot \<Rightarrow> bot" where
  "emit e s = s\<lparr>trace := trace s @ [e]\<rparr>"

definition log_info :: "string \<Rightarrow> bot \<Rightarrow> bot" where
  "log_info m s = s\<lparr>logged := logged s @ [Info m]\<rparr>"

definition log_warning :: "string \<Rightarrow> exn \<Rightarrow> bot \<Rightarrow> bot" where
  "log_warning m e s = s\<lparr>logged := logged s @ [Warning m e]\<rparr>"

definition log_error :: "string \<Rightarrow> exn \<Rightarrow> bot \<Rightarrow> bot" where
  "log_error m e s = s\<lparr>logged := logged s @ [Error m e]\<rparr>"

fun is_create :: "event \<Rightarrow> bool" where
  "is_create (CreateOrder r) = True"
| "is_create _ = False"

fun is_sleep :: "event \<Rightarrow> bool" where
  "is_sleep (Sleep n) = True"
| "is_sleep _ = False"

definition count_ev :: "(event \<Rightarrow> bool) \<Rightarrow> bot \<Rightarrow> nat" where
  "count_ev P s = length (filter P (trace s))"

abbreviation n_server_time :: "bot \<Rightarrow> nat" where
  "n_server_time \<equiv> count_ev (\<lambda>e. e = GetServerTime)"

abbreviation n_time :: "bot \<Rightarrow> nat" where
  "n_time \<equiv> count_ev (\<lambda>e. e = TimeRead)"

abbreviation n_exchange_info :: "bot \<Rightarrow> nat" where
  "n_exchange_info \<equiv> count_ev (\<lambda>e. e = ExchangeInfo)"

abbreviation n_create :: "bot \<Rightarrow> nat" where
  "n_create \<equiv> count_ev is_create"

abbreviation n_position :: "bot \<Rightarrow> nat" where
  "n_position \<equiv> count_ev (\<lambda>e. e = PositionInformation)"

abbreviation n_sleep :: "bot \<Rightarrow> nat" where
  "n_sleep \<equiv> count_ev is_sleep"

text \<open>Python's \<open>int\<close> on a float: truncation towards zero.\<close>

definition py_int :: "real \<Rightarrow> int" where
  "py_int x = (if 0 \<le> x then \<lfloor>x\<rfloor> else \<lceil>x\<rceil>)"

subsection \<open>\<open>sync_time\<close>\<close>

text \<open>
  \<^verbatim>\<open>
  try:
      server_time = self.client.get_server_time()['serverTime']
      local_time = int(time.time() * 1000)
      self.time_offset = server_time - local_time
      self.logger.info(...)
  except Exception as e:
      self.logger.warning(...)
      self.time_offset = 0
  \<close>
\<close>

definition sync_time :: "gateway \<Rightarrow> bot \<Rightarrow> bot" where
  "sync_time gw s =
     (let s1 = emit GetServerTime s in
      case get_server_time gw (n_server_time s) of
        Inr server_time \<Rightarrow>
          (let local_time = py_int (time_ms gw (n_time s1));
               s2 = emit TimeRead s1;
               s3 = s2\<lparr>time_offset := server_time - local_time\<rparr>
           in log_info ''Time synchronized'' s3)
      | Inl e \<Rightarrow>
          (let s2 = log_warning ''Time sync failed'' e s1
           in s2\<lparr>time_offset := 0\<rparr>))"

subsection \<open>\<open>validate_symbol\<close> and \<open>validate_quantity\<close>\<close>

text \<open>The loop of \<open>validate_symbol\<close> over \<open>info['symbols']\<close>.\<close>

fun symbol_trading :: "symbol_info list \<Rightarrow> string \<Rightarrow> bool" where
  "symbol_trading [] symbol = False"
| "symbol_trading (i # is) symbol =
     (if info_symbol i = symbol \<and> info_status i = ''TRADING'' then True
      else symbol_trading is symbol)"

definition validate_symbol :: "gateway \<Rightarrow> string \<Rightarrow> bot \<Rightarrow> (exn + bool) \<times> bot" where
  "validate_symbol gw symbol s =
     (let s1 = emit ExchangeInfo s in
      case futures_exchange_info gw (n_exchange_info s) of
        Inr info \<Rightarrow> (Inr (symbol_trading info symbol), s1)
      | Inl e \<Rightarrow>
          (case api_code e of
             Some c \<Rightarrow> (Inr False, log_error ''Error validating symbol'' e s1)
           | None \<Rightarrow> (Inl e, s1)))"

text \<open>
  \<open>{f['filterType']: f for f in s['filters']}\<close>: a later filter of the same type
  replaces an earlier one.
\<close>

definition filters_dict :: "lot_filter list \<Rightarrow> string \<rightharpoonup> lot_filter" where
  "filters_dict fs = map_of (rev (map (\<lambda>f. (filterType f, f)) fs))"

text \<open>
  Division of floats. A double is \<open>m * 2^e\<close> with \<open>|m| < 2^53\<close> and
  \<open>-1074 \<le> e \<le> 971\<close>. \<open>binade r\<close> is the exponent \<open>b\<close> with
  \<open>2^b \<le> |r| < 2^(b+1)\<close>, found by halving or doubling and cut off outside the range
  of doubles. The unit in the last place of a double next to \<open>r\<close> is \<open>2^e\<close> with
  \<open>e = max (b - 52) (-1074)\<close>, and \<open>round_double r\<close> is the multiple of it nearest to
  \<open>r\<close>, the even one on a tie; a result of magnitude \<open>2^1024\<close> or more is an
  infinity, here \<open>None\<close>. Python's \<open>x / y\<close> raises \<open>ZeroDivisionError\<close> when \<open>y\<close> is
  zero and is \<open>round_double\<close> of the exact quotient otherwise.
\<close>

fun halvings :: "nat \<Rightarrow> real \<Rightarrow> int" where
  "halvings 0 r = 0"
| "halvings (Suc n) r = (if 2 \<le> r then halvings n (r / 2) + 1 else 0)"

fun doublings :: "nat \<Rightarrow> real \<Rightarrow> int" where
  "doublings 0 r = 0"
| "doublings (Suc n) r = (if r < 1 then doublings n (r * 2) + 1 else 0)"

definition binade :: "real \<Rightarrow> int" where
  "binade r = (if 1 \<le> \<bar>r\<bar> then halvings 1024 \<bar>r\<bar> else - doublings 1075 \<bar>r\<bar>)"

definition round_half_even :: "real \<Rightarrow> int" where
  "round_half_even x =
     (let f = \<lfloor>x\<rfloor>; d = x - of_int f
      in if d < 1 / 2 then f else if 1 / 2 < d then f + 1 else if even f then f else f + 1)"

definition round_double :: "real \<Rightarrow> real option" where
  "round_double r =
     (let e = max (binade r - 52) (- 1074);
          y = of_int (round_half_even (r / 2 powi e)) * 2 powi e
      in if 2 ^ 1024 \<le> \<bar>y\<bar> then None else Some y)"

text \<open>
  The loop of \<open>validate_quantity\<close>. The first entry of the symbol decides. A missing
  \<open>LOT_SIZE\<close> filter raises \<open>KeyError\<close>, a zero step raises \<open>ZeroDivisionError\<close>.
  \<open>x % 1 != 0\<close> holds of a finite float exactly when it is not a whole number; of an
  infinite quotient \<open>x % 1\<close> is not a number, which differs from 0.
\<close>

fun quantity_ok :: "symbol_info list \<Rightarrow> string \<Rightarrow> real \<Rightarrow> exn + bool" where
  "quantity_ok [] symbol quantity = Inr False"
| "quantity_ok (i # is) symbol quantity =
     (if info_symbol i = symbol then
        (case filters_dict (info_filters i) ''LOT_SIZE'' of
           None \<Rightarrow> Inl (KeyError ''LOT_SIZE'')
         | Some lot_size \<Rightarrow>
             (let min_qty = minQty lot_size;
                  max_qty = maxQty lot_size;
                  step_size = stepSize lot_size
              in if quantity < min_qty \<or> quantity > max_qty then Inr False
                 else if step_size = 0 then Inl ZeroDivisionError
                 else (case round_double (quantity / step_size) of
                         None \<Rightarrow> Inr False
                       | Some x \<Rightarrow> if frac x \<noteq> 0 then Inr False else Inr True)))
      else quantity_ok is symbol quantity)"

definition validate_quantity :: "gateway \<Rightarrow> string \<Rightarrow> real \<Rightarrow> bot \<Rightarrow> (exn + bool) \<times> bot" where
  "validate_quantity gw symbol quantity s =
     (let s1 = emit ExchangeInfo s in
      case futures_exchange_info gw (n_exchange_info s) of
        Inr info \<Rightarrow>
          (case quantity_ok info symbol quantity of
             Inr b \<Rightarrow> (Inr b, s1)
           | Inl e \<Rightarrow> (Inl e, s1))
      | Inl e \<Rightarrow>
          (case api_code e of
             Some c \<Rightarrow> (Inr False, log_error ''Error validating quantity'' e s1)
           | None \<Rightarrow> (Inl e, s1)))"

subsection \<open>Order submission\<close>

text \<open>
  The three functions \<open>place_market_order\<close>, \<open>place_limit_order\<close> and
  \<open>place_stop_limit_order\<close> have the same loop; they differ in the keyword arguments
  of the \<open>futures_create_order\<close> call and in the texts they log. Only the market order
  passes a \<open>timestamp\<close>, which costs a second read of the clock.
\<close>

datatype order_spec =
    MarketOrder string string real
  | LimitOrder string string real real
  | StopLimitOrder string string real real real

fun build_request :: "gateway \<Rightarrow> order_spec \<Rightarrow> bot \<Rightarrow> request \<times> bot" where
  "build_request gw (MarketOrder symbol side quantity) s =
     (\<lparr>req_symbol = symbol, req_side = side, req_type = ''MARKET'',
       req_timeInForce = None, req_quantity = quantity, req_price = None,
       req_stopPrice = None,
       req_timestamp = Some (py_int (time_ms gw (n_time s) + of_int (time_offset s)))\<rparr>,
      emit TimeRead s)"
| "build_request gw (LimitOrder symbol side quantity price) s =
     (\<lparr>req_symbol = symbol, req_side = side, req_type = ''LIMIT'',
       req_timeInForce = Some ''GTC'', req_quantity = quantity, req_price = Some price,
       req_stopPrice = None, req_timestamp = None\<rparr>, s)"
| "build_request gw (StopLimitOrder symbol side quantity price stop_price) s =
     (\<lparr>req_symbol = symbol, req_side = side, req_type = ''STOP'',
       req_timeInForce = Some ''GTC'', req_quantity = quantity, req_price = Some price,
       req_stopPrice = Some stop_price, req_timestamp = None\<rparr>, s)"

fun placing_text :: "order_spec \<Rightarrow> string" where
  "placing_text (MarketOrder _ _ _) = ''Placing market order''"
| "placing_text (LimitOrder _ _ _ _) = ''Placing limit order''"
| "placing_text (StopLimitOrder _ _ _ _ _) = ''Placing stop-limit order''"

fun placed_text :: "order_spec \<Rightarrow> string" where
  "placed_text (MarketOrder _ _ _) = ''Market order executed''"
| "placed_text (LimitOrder _ _ _ _) = ''Limit order placed''"
| "placed_text (StopLimitOrder _ _ _ _ _) = ''Stop-limit order placed''"

fun failed_text :: "order_spec \<Rightarrow> string" where
  "failed_text (MarketOrder _ _ _) = ''Market order failed''"
| "failed_text (LimitOrder _ _ _ _) = ''Limit order failed''"
| "failed_text (StopLimitOrder _ _ _ _ _) = ''Stop-limit order failed''"

text \<open>
  The body of the \<open>try\<close> block of one attempt: synchronise, log, evaluate the keyword
  arguments, call the client. The result is the client's answer.
\<close>

definition submit_attempt :: "gateway \<Rightarrow> order_spec \<Rightarrow> bot \<Rightarrow> (exn + order) \<times> bot" where
  "submit_attempt gw spec s =
     (let s1 = sync_time gw s;
          s2 = log_info (placing_text spec) s1;
          (req, s3) = build_request gw spec s2
      in (futures_create_order gw (n_create s3) req, emit (CreateOrder req) s3))"

text \<open>
  \<^verbatim>\<open>
  for attempt in range(retries):
      try:
          ...
          return order
      except BinanceAPIException as e:
          if e.code == -1021 and attempt < retries - 1:
              time.sleep(1)
              continue
          self.logger.error(...)
          return None
  \<close>
  An exception of another class leaves the function; a loop that ends without
  \<open>return\<close> yields \<open>None\<close>.
\<close>

function retry_loop ::
  "gateway \<Rightarrow> order_spec \<Rightarrow> int \<Rightarrow> int \<Rightarrow> bot \<Rightarrow> (exn + order option) \<times> bot" where
  "retry_loop gw spec retries attempt s =
     (if attempt < retries then
        (case submit_attempt gw spec s of
           (Inr ord, s4) \<Rightarrow> (Inr (Some ord), log_info (placed_text spec) s4)
         | (Inl e, s4) \<Rightarrow>
             (case api_code e of
                None \<Rightarrow> (Inl e, s4)
              | Some code \<Rightarrow>
                  if code = - 1021 \<and> attempt < retries - 1
                  then retry_loop gw spec retries (attempt + 1) (emit (Sleep 1) s4)
                  else (Inr None, log_error (failed_text spec) e s4)))
      else (Inr None, s))"
  by pat_completeness auto
termination
  by (relation "measure (\<lambda>(gw, spec, retries, attempt, s). nat (retries - attempt))") auto

definition place_market_order ::
  "gateway \<Rightarrow> string \<Rightarrow> string \<Rightarrow> real \<Rightarrow> int \<Rightarrow> bot \<Rightarrow> (exn + order option) \<times> bot" where
  "place_market_order gw symbol side quantity retries s =
     retry_loop gw (MarketOrder symbol side quantity) retries 0 s"

definition place_limit_order ::
  "gateway \<Rightarrow> string \<Rightarrow> string \<Rightarrow> real \<Rightarrow> real \<Rightarrow> int \<Rightarrow> bot \<Rightarrow> (exn + order option) \<times> bot" where
  "place_limit_order gw symbol side quantity price retries s =
     retry_loop gw (LimitOrder symbol side quantity price) retries 0 s"

definition place_stop_limit_order ::
  "gateway \<Rightarrow> string \<Rightarrow> string \<Rightarrow> real \<Rightarrow> real \<Rightarrow> real \<Rightarrow> int \<Rightarrow> bot
     \<Rightarrow> (exn + order option) \<times> bot" where
  "place_stop_limit_order gw symbol side quantity price stop_price retries s =
     retry_loop gw (StopLimitOrder symbol side quantity price stop_price) retries 0 s"

subsection \<open>\<open>get_position\<close> and \<open>close_position\<close>\<close>

fun find_position :: "position list \<Rightarrow> string \<Rightarrow> position option" where
  "find_position [] symbol = None"
| "find_position (p # ps) symbol =
     (if pos_symbol p = symbol \<and> positionAmt p \<noteq> 0 then Some p
      else find_position ps symbol)"

definition get_position :: "gateway \<Rightarrow> string \<Rightarrow> bot \<Rightarrow> position option \<times> bot" where
  "get_position gw symbol s =
     (let s1 = emit PositionInformation s in
      case futures_position_information gw (n_position s) of
        Inr positions \<Rightarrow> (find_position positions symbol, s1)
      | Inl e \<Rightarrow> (None, log_error ''Error getting position'' e s1))"

text \<open>
  The part of \<open>close_position\<close> after side and quantity are known. A \<open>raise\<close> is
  \<open>Inl\<close>, to be caught by the handler of \<open>close_position\<close>.
\<close>

definition close_dispatch ::
  "gateway \<Rightarrow> string \<Rightarrow> string \<Rightarrow> real \<Rightarrow> string \<Rightarrow> real option \<Rightarrow> int \<Rightarrow> bot
     \<Rightarrow> (exn + order option) \<times> bot" where
  "close_dispatch gw symbol side quantity order_type price retries s =
     (if order_type = ''MARKET'' then place_market_order gw symbol side quantity retries s
      else if order_type = ''LIMIT'' then
        (case price of
           None \<Rightarrow> (Inl (ValueError ''Price required for limit orders''), s)
         | Some p \<Rightarrow> place_limit_order gw symbol side quantity p retries s)
      else (Inl (ValueError ''Invalid order type''), s))"

text \<open>
  The \<open>try\<close> block of \<open>close_position\<close>: the position is fetched when \<open>side\<close> or
  \<open>quantity\<close> is \<open>None\<close>, before the order type and the price are looked at.
\<close>

definition close_body ::
  "gateway \<Rightarrow> string \<Rightarrow> string option \<Rightarrow> real option \<Rightarrow> string \<Rightarrow> real option \<Rightarrow> int \<Rightarrow> bot
     \<Rightarrow> (exn + order option) \<times> bot" where
  "close_body gw symbol side quantity order_type price retries s =
     (case (side, quantity) of
        (Some sd, Some q) \<Rightarrow> close_dispatch gw symbol sd q order_type price retries s
      | _ \<Rightarrow>
          (case get_position gw symbol s of
             (None, s1) \<Rightarrow> (Inl (ValueError ''No open position found''), s1)
           | (Some p, s1) \<Rightarrow>
               (let sd = (case side of
                            None \<Rightarrow> if positionAmt p > 0 then ''SELL'' else ''BUY''
                          | Some x \<Rightarrow> x);
                    q = (case quantity of None \<Rightarrow> \<bar>positionAmt p\<bar> | Some x \<Rightarrow> x)
                in close_dispatch gw symbol sd q order_type price retries s1)))"

text \<open>\<open>except Exception as e\<close>: every exception is logged and turned into \<open>None\<close>.\<close>

definition close_position ::
  "gateway \<Rightarrow> string \<Rightarrow> string option \<Rightarrow> real option \<Rightarrow> string \<Rightarrow> real option \<Rightarrow> int \<Rightarrow> bot
     \<Rightarrow> order option \<times> bot" where
  "close_position gw symbol side quantity order_type price retries s =
     (case close_body gw symbol side quantity order_type price retries s of
        (Inr r, s1) \<Rightarrow> (r, s1)
      | (Inl e, s1) \<Rightarrow> (None, log_error ''Failed to close position'' e s1))"

subsection \<open>Scripted clients for concrete runs\<close>

text \<open>
  \<open>script_then k a b\<close> answers \<open>a\<close> to the first \<open>k\<close> calls and \<open>b\<close> afterwards.
  \<open>test_gateway\<close> is a client with constant answers, except for order creation, whose
  answer depends on the number of the call. \<open>new_bot\<close> is a bot that has done nothing yet.
\<close>

definition script_then :: "nat \<Rightarrow> 'a \<Rightarrow> 'a \<Rightarrow> nat \<Rightarrow> 'a" where
  "script_then k a b n = (if n < k then a else b)"

definition test_gateway ::
  "exn + int \<Rightarrow> real \<Rightarrow> exn + symbol_info list \<Rightarrow> (nat \<Rightarrow> exn + order) \<Rightarrow> exn + position list
     \<Rightarrow> gateway" where
  "test_gateway st t info cr ps =
     \<lparr>get_server_time = (\<lambda>n. st), time_ms = (\<lambda>n. t), futures_exchange_info = (\<lambda>n. info),
      futures_create_order = (\<lambda>n req. cr n), futures_position_information = (\<lambda>n. ps)\<rparr>"

definition new_bot :: bot where
  "new_bot = \<lparr>time_offset = 0, trace = [], logged = []\<rparr>"

definition filled :: order where
  "filled = \<lparr>orderId = 7, order_status = ''FILLED''\<rparr>"

text \<open>
  A client whose server time moves from 1000 to 5000 between the first and the second
  query, while the local clock stands at 990.5, and which rejects the first order with
  code \<open>-1021\<close> and accepts the second.
\<close>

definition drifting_gateway :: gateway where
  "drifting_gateway =
     \<lparr>get_server_time = script_then 1 (Inr 1000) (Inr 5000), time_ms = (\<lambda>n. 990.5),
      futures_exchange_info = (\<lambda>n. Inr []),
      futures_create_order =
        (\<lambda>n req. script_then 1 (Inl (BinanceAPIException (- 1021))) (Inr filled) n),
      futures_position_information = (\<lambda>n. Inr [])\<rparr>"

text \<open>Two position entries: a short position of 2.5 and an entry with amount zero.\<close>

definition short_xyz :: position where
  "short_xyz = \<lparr>pos_symbol = ''XYZ'', positionAmt = - 2.5\<rparr>"

definition flat_xyz :: position where
  "flat_xyz = \<lparr>pos_symbol = ''XYZ'', positionAmt = 0\<rparr>"


subsection \<open>Predicates used to state the properties\<close>



section \<open>Properties\<close>

subsection \<open>Traces, logs and counters\<close>


lemma count_ev_emit [simp]: "count_ev P (emit e s) = count_ev P s + (if P e then 1 else 0)"
  by (simp add: count_ev_def emit_def)

lemma count_ev_log [simp]:
  "count_ev P (log_info m s) = count_ev P s"
  "count_ev P (log_warning m e s) = count_ev P s"
  "count_ev P (log_error m e s) = count_ev P s"
  "count_ev P (s\<lparr>time_offset := t\<rparr>) = count_ev P s"
  by (simp_all add: count_ev_def log_info_def log_warning_def log_error_def)

lemma trace_emit [simp]: "trace (emit e s) = trace s @ [e]"
  by (simp add: emit_def)

lemma trace_log [simp]:
  "trace (log_info m s) = trace s"
  "trace (log_warning m e s) = trace s"
  "trace (log_error m e s) = trace s"
  by (simp_all add: log_info_def log_warning_def log_error_def)

lemma logged_emit [simp]: "logged (emit e s) = logged s"
  by (simp add: emit_def)

lemma logged_log [simp]:
  "logged (log_info m s) = logged s @ [Info m]"
  "logged (log_warning m e s) = logged s @ [Warning m e]"
  "logged (log_error m e s) = logged s @ [Error m e]"
  by (simp_all add: log_info_def log_warning_def log_error_def)

lemma time_offset_pres [simp]:
  "time_offset (emit ev s) = time_offset s"
  "time_offset (log_info m s) = time_offset s"
  "time_offset (log_warning m e s) = time_offset s"
  "time_offset (log_error m e s) = time_offset s"
  by (simp_all add: emit_def log_info_def log_warning_def log_error_def)

lemma sync_time_counts [simp]:
  "n_create (sync_time gw s) = n_create s"
  "n_sleep (sync_time gw s) = n_sleep s"
  "n_server_time (sync_time gw s) = Suc (n_server_time s)"
  by (simp_all add: sync_time_def Let_def split: sum.splits)

lemma build_request_counts [simp]:
  "n_create (snd (build_request gw spec s)) = n_create s"
  "n_sleep (snd (build_request gw spec s)) = n_sleep s"
  "n_server_time (snd (build_request gw spec s)) = n_server_time s"
  by (cases spec; simp)+

lemma submit_attempt_eq:
  "submit_attempt gw spec s =
     (let b = build_request gw spec (log_info (placing_text spec) (sync_time gw s))
      in (futures_create_order gw (n_create s) (fst b), emit (CreateOrder (fst b)) (snd b)))"
  by (simp add: submit_attempt_def Let_def case_prod_beta)

lemma submit_attempt_fst:
  "fst (submit_attempt gw spec s) =
     futures_create_order gw (n_create s)
       (fst (build_request gw spec (log_info (placing_text spec) (sync_time gw s))))"
  by (simp add: submit_attempt_eq Let_def)

lemma submit_attempt_counts [simp]:
  "n_create (snd (submit_attempt gw spec s)) = Suc (n_create s)"
  "n_sleep (snd (submit_attempt gw spec s)) = n_sleep s"
  "n_server_time (snd (submit_attempt gw spec s)) = Suc (n_server_time s)"
  by (simp_all add: submit_attempt_eq Let_def)

lemma submit_attempt_last:
  "\<exists>req. trace (snd (submit_attempt gw spec s)) \<noteq> [] \<and>
     last (trace (snd (submit_attempt gw spec s))) = CreateOrder req"
  by (simp add: submit_attempt_eq Let_def)

declare retry_loop.simps [simp del]

lemma retry_loop_done: "\<not> attempt < retries \<Longrightarrow> retry_loop gw spec retries attempt s = (Inr None, s)"
  by (subst retry_loop.simps) simp

lemma retry_loop_ok:
  assumes "attempt < retries" "fst (submit_attempt gw spec s) = Inr r"
  shows "retry_loop gw spec retries attempt s =
           (Inr (Some r), log_info (placed_text spec) (snd (submit_attempt gw spec s)))"
  using assms by (subst retry_loop.simps) (cases "submit_attempt gw spec s", simp)

lemma retry_loop_again:
  assumes "attempt < retries - 1" "fst (submit_attempt gw spec s) = Inl (BinanceAPIException (- 1021))"
  shows "retry_loop gw spec retries attempt s =
           retry_loop gw spec retries (attempt + 1) (emit (Sleep 1) (snd (submit_attempt gw spec s)))"
  using assms by (subst retry_loop.simps) (cases "submit_attempt gw spec s", simp)

lemma retry_loop_fail:
  assumes "attempt < retries" "fst (submit_attempt gw spec s) = Inl e" "api_code e = Some c"
    "c \<noteq> - 1021 \<or> \<not> attempt < retries - 1"
  shows "retry_loop gw spec retries attempt s =
           (Inr None, log_error (failed_text spec) e (snd (submit_attempt gw spec s)))"
  using assms by (subst retry_loop.simps) (cases "submit_attempt gw spec s", auto)

lemma retry_loop_raise:
  assumes "attempt < retries" "fst (submit_attempt gw spec s) = Inl e" "api_code e = None"
  shows "retry_loop gw spec retries attempt s = (Inl e, snd (submit_attempt gw spec s))"
  using assms by (subst retry_loop.simps) (cases "submit_attempt gw spec s", auto)

lemma retry_loop_success:
  assumes "\<forall>i<k. \<forall>req. futures_create_order gw (n_create s + i) req = Inl (BinanceAPIException (- 1021))"
    and "\<forall>req. futures_create_order gw (n_create s + k) req = Inr r"
    and "attempt + int k < retries"
  shows "fst (retry_loop gw spec retries attempt s) = Inr (Some r) \<and>
         n_create (snd (retry_loop gw spec retries attempt s)) = n_create s + k + 1 \<and>
         n_sleep (snd (retry_loop gw spec retries attempt s)) = n_sleep s + k \<and>
         n_server_time (snd (retry_loop gw spec retries attempt s)) = n_server_time s + k + 1 \<and>
         (\<exists>req. trace (snd (retry_loop gw spec retries attempt s)) \<noteq> [] \<and>
                last (trace (snd (retry_loop gw spec retries attempt s))) = CreateOrder req)"
  using assms
proof (induction k arbitrary: attempt s)
  case 0
  then have ok: "fst (submit_attempt gw spec s) = Inr r" and lt: "attempt < retries"
    by (simp_all add: submit_attempt_fst)
  show ?case
    using submit_attempt_last [of gw spec s]
    by (simp add: retry_loop_ok [OF lt ok])
next
  case (Suc k)
  let ?s' = "emit (Sleep 1) (snd (submit_attempt gw spec s))"
  from Suc.prems have lt: "attempt < retries - 1" by simp
  from Suc.prems(1) have "\<forall>req. futures_create_order gw (n_create s + 0) req = Inl (BinanceAPIException (- 1021))"
    by blast
  then have bad: "fst (submit_attempt gw spec s) = Inl (BinanceAPIException (- 1021))"
    by (simp add: submit_attempt_fst)
  have n: "n_create ?s' = Suc (n_create s)" by simp
  have a: "\<forall>i<k. \<forall>req. futures_create_order gw (n_create ?s' + i) req = Inl (BinanceAPIException (- 1021))"
    using Suc.prems(1) by (simp add: n) (metis Suc_less_eq add_Suc_right)
  have b: "\<forall>req. futures_create_order gw (n_create ?s' + k) req = Inr r"
    using Suc.prems(2) by (simp add: n)
  have c: "(attempt + 1) + int k < retries" using Suc.prems(3) by simp
  show ?case
    using Suc.IH [OF a b c] by (simp add: retry_loop_again [OF lt bad])
qed


lemma retry_loop_reject:
  assumes "attempt < retries"
    and "\<forall>req. futures_create_order gw (n_create s) req = Inl (BinanceAPIException c)"
    and "c \<noteq> - 1021"
  shows "retry_loop gw spec retries attempt s =
           (Inr None, log_error (failed_text spec) (BinanceAPIException c)
                        (snd (submit_attempt gw spec s)))"
proof -
  from assms(2) have "fst (submit_attempt gw spec s) = Inl (BinanceAPIException c)"
    by (simp add: submit_attempt_fst)
  then show ?thesis
    using assms(1,3) by (intro retry_loop_fail [where c = c]) simp_all
qed

lemma retry_loop_exhausted:
  assumes "\<forall>i<n. \<forall>req. futures_create_order gw (n_create s + i) req = Inl (BinanceAPIException (- 1021))"
    and "attempt + int n = retries" and "0 < n"
  shows "fst (retry_loop gw spec retries attempt s) = Inr None \<and>
         n_create (snd (retry_loop gw spec retries attempt s)) = n_create s + n \<and>
         n_sleep (snd (retry_loop gw spec retries attempt s)) = n_sleep s + (n - 1)"
  using assms
proof (induction n arbitrary: attempt s)
  case 0
  then show ?case by simp
next
  case (Suc n)
  from Suc.prems(1) have "\<forall>req. futures_create_order gw (n_create s + 0) req = Inl (BinanceAPIException (- 1021))"
    by blast
  then have bad: "fst (submit_attempt gw spec s) = Inl (BinanceAPIException (- 1021))"
    by (simp add: submit_attempt_fst)
  show ?case
  proof (cases n)
    case 0
    with Suc.prems have lt: "attempt < retries" and last: "\<not> attempt < retries - 1" by simp_all
    have "retry_loop gw spec retries attempt s =
            (Inr None, log_error (failed_text spec) (BinanceAPIException (- 1021))
                         (snd (submit_attempt gw spec s)))"
      using lt bad last by (intro retry_loop_fail [where c = "- 1021"]) simp_all
    with 0 show ?thesis by simp
  next
    case (Suc m)
    let ?s' = "emit (Sleep 1) (snd (submit_attempt gw spec s))"
    from Suc Suc.prems have lt: "attempt < retries - 1" by simp
    have n: "n_create ?s' = Suc (n_create s)" by simp
    have a: "\<forall>i<n. \<forall>req. futures_create_order gw (n_create ?s' + i) req = Inl (BinanceAPIException (- 1021))"
      using Suc.prems(1) by (simp add: n) (metis Suc_less_eq add_Suc_right)
    have b: "(attempt + 1) + int n = retries" using Suc.prems(2) by simp
    have c: "0 < n" using Suc by simp
    show ?thesis
      using Suc.IH [OF a b c] Suc by (simp add: retry_loop_again [OF lt bad])
  qed
qed

lemma retry_loop_bound:
  "n_create (snd (retry_loop gw spec retries attempt s)) \<le> n_create s + nat (retries - attempt)"
proof (induction gw spec retries attempt s rule: retry_loop.induct)
  case (1 gw spec retries attempt s)
  show ?case
  proof (cases "attempt < retries")
    case False
    then show ?thesis by (simp add: retry_loop_done)
  next
    case lt: True
    obtain res s4 where sa: "submit_attempt gw spec s = (res, s4)"
      by (cases "submit_attempt gw spec s")
    then have n4: "n_create s4 = Suc (n_create s)"
      using submit_attempt_counts(1) [of gw spec s] by simp
    show ?thesis
    proof (cases res)
      case (Inr ord)
      with sa lt n4 show ?thesis
        by (subst retry_loop.simps) simp
    next
      case (Inl e)
      show ?thesis
      proof (cases "api_code e")
        case None
        with sa lt n4 Inl show ?thesis
          by (subst retry_loop.simps) simp
      next
        case (Some code)
        show ?thesis
        proof (cases "code = - 1021 \<and> attempt < retries - 1")
          case False
          with sa lt n4 Inl Some show ?thesis
            by (subst retry_loop.simps) auto
        next
          case True
          have "n_create (snd (retry_loop gw spec retries (attempt + 1) (emit (Sleep 1) s4)))
                  \<le> n_create (emit (Sleep 1) s4) + nat (retries - (attempt + 1))"
            using "1.IH" [OF lt sa [symmetric] Inl Some True] .
          moreover have "nat (retries - attempt) = Suc (nat (retries - (attempt + 1)))"
            using lt by arith
          moreover have "retry_loop gw spec retries attempt s =
                  retry_loop gw spec retries (attempt + 1) (emit (Sleep 1) s4)"
            using sa lt Inl Some True by (subst retry_loop.simps) simp
          ultimately show ?thesis
            using n4 by simp
        qed
      qed
    qed
  qed
qed

lemma new_bot_counts [simp]: "count_ev P new_bot = 0"
  by (simp add: count_ev_def new_bot_def)

lemma test_gateway_create [simp]:
  "futures_create_order (test_gateway st t info cr ps) n req = cr n"
  by (simp add: test_gateway_def)

subsection \<open>What a run appends to the trace\<close>

lemma test_gateway_simps [simp]:
  "get_server_time (test_gateway st t info cr ps) n = st"
  "time_ms (test_gateway st t info cr ps) n = t"
  "futures_exchange_info (test_gateway st t info cr ps) n = info"
  "futures_position_information (test_gateway st t info cr ps) n = ps"
  by (simp_all add: test_gateway_def)

lemma sync_time_trace:
  "trace (sync_time gw s) =
     trace s @ GetServerTime #
       (case get_server_time gw (n_server_time s) of Inr t \<Rightarrow> [TimeRead] | Inl e \<Rightarrow> [])"
  by (simp add: sync_time_def Let_def split: sum.splits)

lemma build_request_trace:
  "trace (snd (build_request gw spec s)) =
     trace s @ (case spec of MarketOrder a b c \<Rightarrow> [TimeRead] | _ \<Rightarrow> [])"
  by (cases spec) simp_all

lemma submit_attempt_trace:
  "trace (snd (submit_attempt gw spec s)) =
     trace s @ GetServerTime #
       (case get_server_time gw (n_server_time s) of Inr t \<Rightarrow> [TimeRead] | Inl e \<Rightarrow> []) @
       (case spec of MarketOrder a b c \<Rightarrow> [TimeRead] | _ \<Rightarrow> []) @
       [CreateOrder (fst (build_request gw spec (log_info (placing_text spec) (sync_time gw s))))]"
  by (simp add: submit_attempt_eq Let_def build_request_trace sync_time_trace)

lemma submit_attempt_new_requests:
  assumes "\<And>t. P (fst (build_request gw spec t))"
  shows "\<exists>new. trace (snd (submit_attempt gw spec s)) = trace s @ new \<and>
           (\<forall>req. CreateOrder req \<in> set new \<longrightarrow> P req)"
  using assms
  by (auto simp: submit_attempt_trace split: sum.splits order_spec.splits)

lemma retry_loop_requests:
  assumes "\<And>t. P (fst (build_request gw spec t))"
  shows "\<exists>new. trace (snd (retry_loop gw spec retries attempt s)) = trace s @ new \<and>
           (\<forall>req. CreateOrder req \<in> set new \<longrightarrow> P req)"
  using assms
proof (induction gw spec retries attempt s rule: retry_loop.induct)
  case (1 gw spec retries attempt s)
  show ?case
  proof (cases "attempt < retries")
    case False
    then show ?thesis by (simp add: retry_loop_done)
  next
    case lt: True
    obtain res s4 where sa: "submit_attempt gw spec s = (res, s4)"
      by (cases "submit_attempt gw spec s")
    from submit_attempt_new_requests [of P gw spec s, OF "1.prems"] sa
    obtain new where new: "trace s4 = trace s @ new" "\<forall>req. CreateOrder req \<in> set new \<longrightarrow> P req"
      by auto
    show ?thesis
    proof (cases res)
      case (Inr ord)
      with sa lt new show ?thesis
        by (subst retry_loop.simps) simp
    next
      case (Inl e)
      show ?thesis
      proof (cases "api_code e")
        case None
        with sa lt new Inl show ?thesis
          by (subst retry_loop.simps) simp
      next
        case (Some code)
        show ?thesis
        proof (cases "code = - 1021 \<and> attempt < retries - 1")
          case False
          with sa lt new Inl Some show ?thesis
            by (subst retry_loop.simps) auto
        next
          case True
          from "1.IH" [OF lt sa [symmetric] Inl Some True "1.prems"]
          obtain new' where new':
            "trace (snd (retry_loop gw spec retries (attempt + 1) (emit (Sleep 1) s4)))
               = trace (emit (Sleep 1) s4) @ new'"
            "\<forall>req. CreateOrder req \<in> set new' \<longrightarrow> P req"
            by auto
          have eq: "retry_loop gw spec retries attempt s =
                  retry_loop gw spec retries (attempt + 1) (emit (Sleep 1) s4)"
            using sa lt Inl Some True by (subst retry_loop.simps) simp
          have "trace (snd (retry_loop gw spec retries attempt s))
                  = trace s @ (new @ Sleep 1 # new')"
            using new' new by (simp add: eq)
          moreover have "\<forall>req. CreateOrder req \<in> set (new @ Sleep 1 # new') \<longrightarrow> P req"
            using new' new by auto
          ultimately show ?thesis by blast
        qed
      qed
    qed
  qed
qed


subsection \<open>Retry until success\<close>

lemma submit_attempt_no_sleep:
  "\<exists>seg. trace (snd (submit_attempt gw spec s)) = trace s @ seg \<and> filter is_sleep seg = []"
  by (auto simp: submit_attempt_trace split: sum.splits order_spec.splits)

lemma retry_loop_success_sleeps:
  assumes "\<forall>i<k. \<forall>req. futures_create_order gw (n_create s + i) req = Inl (BinanceAPIException (- 1021))"
    and "\<forall>req. futures_create_order gw (n_create s + k) req = Inr r"
    and "attempt + int k < retries"
  shows "\<exists>new. trace (snd (retry_loop gw spec retries attempt s)) = trace s @ new \<and>
           filter is_sleep new = replicate k (Sleep 1)"
  using assms
proof (induction k arbitrary: attempt s)
  case 0
  then have ok: "fst (submit_attempt gw spec s) = Inr r" and lt: "attempt < retries"
    by (simp_all add: submit_attempt_fst)
  show ?case
    using submit_attempt_no_sleep [of gw spec s]
    by (simp add: retry_loop_ok [OF lt ok])
next
  case (Suc k)
  let ?s' = "emit (Sleep 1) (snd (submit_attempt gw spec s))"
  from Suc.prems have lt: "attempt < retries - 1" by simp
  from Suc.prems(1) have "\<forall>req. futures_create_order gw (n_create s + 0) req = Inl (BinanceAPIException (- 1021))"
    by blast
  then have bad: "fst (submit_attempt gw spec s) = Inl (BinanceAPIException (- 1021))"
    by (simp add: submit_attempt_fst)
  have n: "n_create ?s' = Suc (n_create s)" by simp
  have a: "\<forall>i<k. \<forall>req. futures_create_order gw (n_create ?s' + i) req = Inl (BinanceAPIException (- 1021))"
    using Suc.prems(1) by (simp add: n) (metis Suc_less_eq add_Suc_right)
  have b: "\<forall>req. futures_create_order gw (n_create ?s' + k) req = Inr r"
    using Suc.prems(2) by (simp add: n)
  have c: "(attempt + 1) + int k < retries" using Suc.prems(3) by simp
  from Suc.IH [OF a b c] obtain new' where new':
    "trace (snd (retry_loop gw spec retries (attempt + 1) ?s')) = trace ?s' @ new'"
    "filter is_sleep new' = replicate k (Sleep 1)"
    by blast
  from submit_attempt_no_sleep [of gw spec s] obtain seg where seg:
    "trace (snd (submit_attempt gw spec s)) = trace s @ seg" "filter is_sleep seg = []"
    by blast
  have "trace (snd (retry_loop gw spec retries attempt s)) = trace s @ (seg @ Sleep 1 # new')"
    using new'(1) seg(1) by (simp add: retry_loop_again [OF lt bad])
  moreover have "filter is_sleep (seg @ Sleep 1 # new') = replicate (Suc k) (Sleep 1)"
    using new'(2) seg(2) by simp
  ultimately show ?case by blast
qed

text \<open>
  C1. Let the client reject order creation with code \<open>-1021\<close> on the next \<open>k\<close> calls
  and accept the call after them, with \<open>k < max_attempts\<close>. Then each of
  \<open>place_market_order\<close>, \<open>place_limit_order\<close> and \<open>place_stop_limit_order\<close> returns the
  accepted order, has made exactly \<open>k + 1\<close> order-creation calls and slept exactly \<open>k\<close>
  times, each sleep of the run being a sleep of one second, and the accepted call is the
  last effect of the run: nothing is sent after it.
\<close>

theorem retry_until_success:
  assumes "1 \<le> max_attempts" and "int k < max_attempts"
    and "\<forall>i<k. \<forall>req. futures_create_order gw (n_create s + i) req
                        = Inl (BinanceAPIException (- 1021))"
    and "\<forall>req. futures_create_order gw (n_create s + k) req = Inr r"
    and "run \<in> {place_market_order gw symbol side quantity max_attempts s,
                 place_limit_order gw symbol side quantity price max_attempts s,
                 place_stop_limit_order gw symbol side quantity price stop_price max_attempts s}"
  shows "fst run = Inr (Some r) \<and>
         n_create (snd run) = n_create s + k + 1 \<and>
         n_sleep (snd run) = n_sleep s + k \<and>
         (\<exists>new. trace (snd run) = trace s @ new \<and>
                filter is_sleep new = replicate k (Sleep 1)) \<and>
         (\<exists>req. trace (snd run) \<noteq> [] \<and> last (trace (snd run)) = CreateOrder req)"
proof -
  from assms(5) obtain spec where run: "run = retry_loop gw spec max_attempts 0 s"
    by (auto simp: place_market_order_def place_limit_order_def place_stop_limit_order_def)
  have "0 + int k < max_attempts" using assms(2) by simp
  from retry_loop_success [OF assms(3) assms(4) this, of spec]
       retry_loop_success_sleeps [OF assms(3) assms(4) this, of spec]
  show ?thesis
    by (simp add: run)
qed

theorem retry_until_success_witness:
  "fst (place_market_order
          (test_gateway (Inr 1000) 990.5 (Inr [])
             (script_then 2 (Inl (BinanceAPIException (- 1021))) (Inr filled)) (Inr []))
          ''XYZ'' ''BUY'' 1 3 new_bot) = Inr (Some filled) \<and>
   n_create (snd (place_market_order
          (test_gateway (Inr 1000) 990.5 (Inr [])
             (script_then 2 (Inl (BinanceAPIException (- 1021))) (Inr filled)) (Inr []))
          ''XYZ'' ''BUY'' 1 3 new_bot)) = 3 \<and>
   n_sleep (snd (place_market_order
          (test_gateway (Inr 1000) 990.5 (Inr [])
             (script_then 2 (Inl (BinanceAPIException (- 1021))) (Inr filled)) (Inr []))
          ''XYZ'' ''BUY'' 1 3 new_bot)) = 2 \<and>
   filter is_sleep (trace (snd (place_market_order
          (test_gateway (Inr 1000) 990.5 (Inr [])
             (script_then 2 (Inl (BinanceAPIException (- 1021))) (Inr filled)) (Inr []))
          ''XYZ'' ''BUY'' 1 3 new_bot))) = [Sleep 1, Sleep 1]"
proof -
  let ?gw = "test_gateway (Inr 1000) 990.5 (Inr [])
               (script_then 2 (Inl (BinanceAPIException (- 1021))) (Inr filled)) (Inr [])"
  have a: "(1::int) \<le> 3" and b: "int 2 < 3" by simp_all
  have c: "\<forall>i<2. \<forall>req. futures_create_order ?gw (n_create new_bot + i) req
                          = Inl (BinanceAPIException (- 1021))"
    by (simp add: script_then_def)
  have d: "\<forall>req. futures_create_order ?gw (n_create new_bot + 2) req = Inr filled"
    by (simp add: script_then_def)
  have tr0: "trace new_bot = []" by (simp add: new_bot_def)
  from retry_until_success [OF a b c d, of "place_market_order ?gw ''XYZ'' ''BUY'' 1 3 new_bot"
                              "''XYZ''" "''BUY''" 1]
  show ?thesis by (auto simp: tr0 numeral_2_eq_2)
qed

subsection \<open>No retry on other error codes\<close>

text \<open>
  C2. Let the client reject the next order-creation call with a \<open>BinanceAPIException\<close>
  whose code is not \<open>-1021\<close>, and let \<open>max_attempts\<close> be at least 1. Then each of the
  three functions makes exactly one order-creation call, does not sleep, and returns
  \<open>None\<close>; the exception is the reason it logs as its last log entry.
\<close>

theorem no_retry_on_other_codes:
  assumes "1 \<le> max_attempts" and "c \<noteq> - 1021"
    and "\<forall>req. futures_create_order gw (n_create s) req = Inl (BinanceAPIException c)"
    and "run \<in> {place_market_order gw symbol side quantity max_attempts s,
                 place_limit_order gw symbol side quantity price max_attempts s,
                 place_stop_limit_order gw symbol side quantity price stop_price max_attempts s}"
  shows "fst run = Inr None \<and>
         n_create (snd run) = n_create s + 1 \<and>
         n_sleep (snd run) = n_sleep s \<and>
         (\<exists>text. logged (snd run) \<noteq> [] \<and>
                 last (logged (snd run)) = Error text (BinanceAPIException c))"
proof -
  from assms(4) obtain spec where run: "run = retry_loop gw spec max_attempts 0 s"
    by (auto simp: place_market_order_def place_limit_order_def place_stop_limit_order_def)
  have "0 < max_attempts" using assms(1) by simp
  from retry_loop_reject [OF this assms(3) assms(2), of spec] show ?thesis
    by (simp add: run)
qed

theorem no_retry_on_other_codes_witness:
  "fst (place_limit_order
          (test_gateway (Inr 1000) 990.5 (Inr [])
             (script_then 1 (Inl (BinanceAPIException (- 2019))) (Inr filled)) (Inr []))
          ''XYZ'' ''SELL'' 1 50 3 new_bot) = Inr None \<and>
   n_create (snd (place_limit_order
          (test_gateway (Inr 1000) 990.5 (Inr [])
             (script_then 1 (Inl (BinanceAPIException (- 2019))) (Inr filled)) (Inr []))
          ''XYZ'' ''SELL'' 1 50 3 new_bot)) = 1 \<and>
   n_sleep (snd (place_limit_order
          (test_gateway (Inr 1000) 990.5 (Inr [])
             (script_then 1 (Inl (BinanceAPIException (- 2019))) (Inr filled)) (Inr []))
          ''XYZ'' ''SELL'' 1 50 3 new_bot)) = 0"
proof -
  let ?gw = "test_gateway (Inr 1000) 990.5 (Inr [])
               (script_then 1 (Inl (BinanceAPIException (- 2019))) (Inr filled)) (Inr [])"
  have a: "(1::int) \<le> 3" and b: "(- 2019::int) \<noteq> - 1021" by simp_all
  have c: "\<forall>req. futures_create_order ?gw (n_create new_bot) req
                   = Inl (BinanceAPIException (- 2019))"
    by (simp add: script_then_def)
  from no_retry_on_other_codes [OF a b c,
         of "place_limit_order ?gw ''XYZ'' ''SELL'' 1 50 3 new_bot" "''XYZ''" "''SELL''" 1 50]
  show ?thesis by simp
qed

subsection \<open>Exhausted attempts\<close>

text \<open>
  C3. With three attempts and a client that rejects every order-creation call with code
  \<open>-1021\<close>, each of the three functions makes exactly three order-creation calls and
  returns \<open>None\<close>. For any client, any state and any number of attempts, a run makes at
  most \<open>max_attempts\<close> order-creation calls.
\<close>

theorem attempts_exhausted:
  assumes "\<forall>n req. futures_create_order gw n req = Inl (BinanceAPIException (- 1021))"
    and "run \<in> {place_market_order gw symbol side quantity 3 s,
                 place_limit_order gw symbol side quantity price 3 s,
                 place_stop_limit_order gw symbol side quantity price stop_price 3 s}"
  shows "fst run = Inr None \<and>
         n_create (snd run) = n_create s + 3 \<and>
         n_create (snd (place_market_order gw' symbol' side' quantity' max_attempts s'))
           \<le> n_create s' + nat max_attempts \<and>
         n_create (snd (place_limit_order gw' symbol' side' quantity' price' max_attempts s'))
           \<le> n_create s' + nat max_attempts \<and>
         n_create (snd (place_stop_limit_order gw' symbol' side' quantity' price' stop_price'
                          max_attempts s'))
           \<le> n_create s' + nat max_attempts"
proof -
  from assms(2) obtain spec where run: "run = retry_loop gw spec 3 0 s"
    by (auto simp: place_market_order_def place_limit_order_def place_stop_limit_order_def)
  have a: "\<forall>i<3. \<forall>req. futures_create_order gw (n_create s + i) req
                           = Inl (BinanceAPIException (- 1021))"
    using assms(1) by simp
  have b: "0 + int 3 = 3" and c: "(0::nat) < 3" by simp_all
  from retry_loop_exhausted [OF a b c, of spec]
  have "fst run = Inr None \<and> n_create (snd run) = n_create s + 3"
    by (simp add: run)
  moreover have "n_create (snd (retry_loop gw' sp max_attempts 0 s'))
                   \<le> n_create s' + nat max_attempts" for sp
    using retry_loop_bound [of gw' sp max_attempts 0 s'] by simp
  ultimately show ?thesis
    by (simp add: place_market_order_def place_limit_order_def place_stop_limit_order_def)
qed

theorem attempts_exhausted_witness:
  "fst (place_stop_limit_order
          (test_gateway (Inr 1000) 990.5 (Inr [])
             (script_then 0 (Inr filled) (Inl (BinanceAPIException (- 1021)))) (Inr []))
          ''XYZ'' ''BUY'' 1 50 49 3 new_bot) = Inr None \<and>
   n_create (snd (place_stop_limit_order
          (test_gateway (Inr 1000) 990.5 (Inr [])
             (script_then 0 (Inr filled) (Inl (BinanceAPIException (- 1021)))) (Inr []))
          ''XYZ'' ''BUY'' 1 50 49 3 new_bot)) = 3"
proof -
  let ?gw = "test_gateway (Inr 1000) 990.5 (Inr [])
               (script_then 0 (Inr filled) (Inl (BinanceAPIException (- 1021)))) (Inr [])"
  have a: "\<forall>n req. futures_create_order ?gw n req = Inl (BinanceAPIException (- 1021))"
    by (simp add: script_then_def)
  from attempts_exhausted [OF a,
         where run = "place_stop_limit_order ?gw ''XYZ'' ''BUY'' 1 50 49 3 new_bot"
           and symbol = "''XYZ''" and side = "''BUY''" and quantity = 1 and price = 50
           and stop_price = 49 and s = new_bot]
  show ?thesis by simp
qed

subsection \<open>No attempts at all\<close>

text \<open>
  C10. With \<open>retries = 0\<close> the loop body never runs: each of the three functions
  returns \<open>None\<close> and leaves the state as it was, so there is no client call, no
  synchronisation of the clock and no sleep.
\<close>

theorem zero_retries:
  "place_market_order gw symbol side quantity 0 s = (Inr None, s) \<and>
   place_limit_order gw symbol side quantity price 0 s = (Inr None, s) \<and>
   place_stop_limit_order gw symbol side quantity price stop_price 0 s = (Inr None, s)"
  by (simp add: place_market_order_def place_limit_order_def place_stop_limit_order_def
        retry_loop_done)

subsection \<open>Closing a position\<close>

lemma get_position_eq:
  "get_position gw symbol s =
     (case futures_position_information gw (n_position s) of
        Inr positions \<Rightarrow> (find_position positions symbol, emit PositionInformation s)
      | Inl e \<Rightarrow> (None, log_error ''Error getting position'' e (emit PositionInformation s)))"
  by (simp add: get_position_def Let_def)

lemma get_position_trace [simp]:
  "trace (snd (get_position gw symbol s)) = trace s @ [PositionInformation]"
  by (simp add: get_position_eq split: sum.splits)

lemma get_position_counts [simp]:
  "n_create (snd (get_position gw symbol s)) = n_create s"
  by (simp add: count_ev_def)

lemma find_position_None:
  "find_position ps symbol = None \<longleftrightarrow>
     (\<forall>p \<in> set ps. pos_symbol p = symbol \<longrightarrow> positionAmt p = 0)"
  by (induction ps) auto


lemma close_dispatch_limit_no_price:
  "close_dispatch gw symbol side quantity ''LIMIT'' None retries s =
     (Inl (ValueError ''Price required for limit orders''), s)"
  by (simp add: close_dispatch_def)



text \<open>
  C5, as the code has it. A limit close without a price returns \<open>None\<close>, logs a
  \<open>ValueError\<close> and creates no order. When \<open>side\<close> and \<open>quantity\<close> are both
  given it performs no effect at all; when one of them is \<open>None\<close> the position is
  fetched first, so exactly one client call (the position query) precedes the failure.
\<close>

theorem limit_close_without_price:
  "fst (close_position gw symbol side quantity ''LIMIT'' None retries s) = None \<and>
   n_create (snd (close_position gw symbol side quantity ''LIMIT'' None retries s)) = n_create s \<and>
   trace (snd (close_position gw symbol side quantity ''LIMIT'' None retries s)) =
     (if side = None \<or> quantity = None then trace s @ [PositionInformation] else trace s) \<and>
   (\<exists>e. logged (snd (close_position gw symbol side quantity ''LIMIT'' None retries s)) \<noteq> [] \<and>
        last (logged (snd (close_position gw symbol side quantity ''LIMIT'' None retries s)))
          = Error ''Failed to close position'' (ValueError e))"
proof (cases "side = None \<or> quantity = None")
  case False
  then obtain sd q where "side = Some sd" "quantity = Some q" by auto
  then show ?thesis
    by (simp add: close_position_def close_body_def close_dispatch_limit_no_price)
next
  case True
  obtain r s1 where gp: "get_position gw symbol s = (r, s1)"
    by (cases "get_position gw symbol s")
  then have tr: "trace s1 = trace s @ [PositionInformation]" and nc: "n_create s1 = n_create s"
    using get_position_trace [of gw symbol s] get_position_counts [of gw symbol s] by simp_all
  have body: "\<exists>e. close_body gw symbol side quantity ''LIMIT'' None retries s
                = (Inl (ValueError e), s1)"
    using True gp
    by (cases side; cases quantity; cases r)
       (simp_all add: close_body_def close_dispatch_limit_no_price Let_def)
  then obtain e where "close_body gw symbol side quantity ''LIMIT'' None retries s
                = (Inl (ValueError e), s1)" ..
  with True tr nc show ?thesis
    by (simp add: close_position_def)
qed

theorem limit_close_without_price_witness:
  "fst (close_position
          (test_gateway (Inr 1000) 990.5 (Inr []) (script_then 0 (Inr filled) (Inr filled))
             (Inr [short_xyz]))
          ''XYZ'' (Some ''BUY'') (Some 1) ''LIMIT'' None 3 new_bot) = None \<and>
   trace (snd (close_position
          (test_gateway (Inr 1000) 990.5 (Inr []) (script_then 0 (Inr filled) (Inr filled))
             (Inr [short_xyz]))
          ''XYZ'' (Some ''BUY'') (Some 1) ''LIMIT'' None 3 new_bot)) = []"
  using limit_close_without_price
          [of "test_gateway (Inr 1000) 990.5 (Inr []) (script_then 0 (Inr filled) (Inr filled))
                 (Inr [short_xyz])"
              "''XYZ''" "Some ''BUY''" "Some 1" 3 new_bot]
  by (simp add: new_bot_def)

text \<open>
  C5, as stated, fails: with \<open>side\<close> and \<open>quantity\<close> unspecified and an open position,
  a limit close without a price has called the client once before it fails.
\<close>

theorem limit_close_without_price_fetches_position:
  "trace new_bot = [] \<and>
   trace (snd (close_position
                 (test_gateway (Inr 1000) 990.5 (Inr []) (script_then 0 (Inr filled) (Inr filled))
                    (Inr [short_xyz]))
                 ''XYZ'' None None ''LIMIT'' None 3 new_bot)) = [PositionInformation]"
  by (simp add: close_position_def close_body_def close_dispatch_def get_position_eq
        short_xyz_def new_bot_def emit_def log_error_def count_ev_def)

text \<open>
  C8. When \<open>side\<close> or \<open>quantity\<close> is unspecified and the position list holds no entry
  of the symbol with a non-zero amount, \<open>close_position\<close> returns \<open>None\<close>, its only
  effect is the position query (no order is created), and the reason it logs is the
  \<open>ValueError\<close> "No open position found".
\<close>

theorem close_without_open_position:
  assumes "side = None \<or> quantity = None"
    and "futures_position_information gw (n_position s) = Inr ps"
    and "\<forall>p \<in> set ps. pos_symbol p = symbol \<longrightarrow> positionAmt p = 0"
  shows "fst (close_position gw symbol side quantity order_type price retries s) = None \<and>
         trace (snd (close_position gw symbol side quantity order_type price retries s))
           = trace s @ [PositionInformation] \<and>
         logged (snd (close_position gw symbol side quantity order_type price retries s))
           = logged s @ [Error ''Failed to close position'' (ValueError ''No open position found'')]"
proof -
  from assms(3) have "find_position ps symbol = None"
    by (simp add: find_position_None)
  with assms(2) have gp: "get_position gw symbol s = (None, emit PositionInformation s)"
    by (simp add: get_position_eq)
  have "close_body gw symbol side quantity order_type price retries s
          = (Inl (ValueError ''No open position found''), emit PositionInformation s)"
    using assms(1) gp by (cases side; cases quantity) (simp_all add: close_body_def)
  then show ?thesis
    by (simp add: close_position_def)
qed

theorem close_without_open_position_witness:
  "fst (close_position
          (test_gateway (Inr 1000) 990.5 (Inr []) (script_then 0 (Inr filled) (Inr filled))
             (Inr [flat_xyz]))
          ''XYZ'' None None ''MARKET'' None 3 new_bot) = None \<and>
   trace (snd (close_position
          (test_gateway (Inr 1000) 990.5 (Inr []) (script_then 0 (Inr filled) (Inr filled))
             (Inr [flat_xyz]))
          ''XYZ'' None None ''MARKET'' None 3 new_bot)) = [PositionInformation]"
proof -
  let ?gw = "test_gateway (Inr 1000) 990.5 (Inr []) (script_then 0 (Inr filled) (Inr filled))
               (Inr [flat_xyz])"
  have a: "(None :: string option) = None \<or> (None :: real option) = None" by simp
  have b: "futures_position_information ?gw (n_position new_bot) = Inr [flat_xyz]" by simp
  have c: "\<forall>p \<in> set [flat_xyz]. pos_symbol p = ''XYZ'' \<longrightarrow> positionAmt p = 0"
    by (simp add: flat_xyz_def)
  from close_without_open_position [OF a b c, of "''MARKET''" None 3]
  show ?thesis by (simp add: new_bot_def)
qed



subsection \<open>Validation when the metadata call fails\<close>

lemma validate_symbol_raises:
  assumes "futures_exchange_info gw (n_exchange_info s) = Inl e"
  shows "fst (validate_symbol gw symbol s) = (if api_code e = None then Inl e else Inr False)"
  using assms by (simp add: validate_symbol_def Let_def split: option.splits)

lemma validate_quantity_raises:
  assumes "futures_exchange_info gw (n_exchange_info s) = Inl e"
  shows "fst (validate_quantity gw symbol quantity s)
           = (if api_code e = None then Inl e else Inr False)"
  using assms by (simp add: validate_quantity_def Let_def split: option.splits)

text \<open>
  C6, as the code has it. When the exchange-info call raises a \<open>BinanceAPIException\<close>,
  \<open>validate_symbol\<close> and \<open>validate_quantity\<close> both return \<open>False\<close>. The handlers
  name that class only: any other exception raised by the call leaves both functions.
\<close>

theorem validators_on_failed_metadata_call:
  assumes "futures_exchange_info gw (n_exchange_info s) = Inl e"
  shows "(\<forall>c. e = BinanceAPIException c \<longrightarrow>
            fst (validate_symbol gw symbol s) = Inr False \<and>
            fst (validate_quantity gw symbol quantity s) = Inr False) \<and>
         (api_code e = None \<longrightarrow>
            fst (validate_symbol gw symbol s) = Inl e \<and>
            fst (validate_quantity gw symbol quantity s) = Inl e)"
  using validate_symbol_raises [OF assms] validate_quantity_raises [OF assms] by auto

theorem validators_on_failed_metadata_call_witness:
  "fst (validate_symbol
          (test_gateway (Inr 1000) 990.5 (Inl (BinanceAPIException (- 1003)))
             (script_then 0 (Inr filled) (Inr filled)) (Inr []))
          ''XYZ'' new_bot) = Inr False \<and>
   fst (validate_quantity
          (test_gateway (Inr 1000) 990.5 (Inl (BinanceAPIException (- 1003)))
             (script_then 0 (Inr filled) (Inr filled)) (Inr []))
          ''XYZ'' 4 new_bot) = Inr False"
proof -
  let ?gw = "test_gateway (Inr 1000) 990.5 (Inl (BinanceAPIException (- 1003)))
               (script_then 0 (Inr filled) (Inr filled)) (Inr [])"
  have a: "futures_exchange_info ?gw (n_exchange_info new_bot) = Inl (BinanceAPIException (- 1003))"
    by simp
  from validators_on_failed_metadata_call [OF a, of "''XYZ''" 4]
  show ?thesis by simp
qed

text \<open>
  C6, as stated, fails: a connection error of the transport layer is not a
  \<open>BinanceAPIException\<close>, and both validators let it through to the caller.
\<close>

theorem validators_propagate_transport_error:
  "fst (validate_symbol
          (test_gateway (Inr 1000) 990.5 (Inl (OtherException ''ConnectionError''))
             (script_then 0 (Inr filled) (Inr filled)) (Inr []))
          ''XYZ'' new_bot) = Inl (OtherException ''ConnectionError'') \<and>
   fst (validate_quantity
          (test_gateway (Inr 1000) 990.5 (Inl (OtherException ''ConnectionError''))
             (script_then 0 (Inr filled) (Inr filled)) (Inr []))
          ''XYZ'' 4 new_bot) = Inl (OtherException ''ConnectionError'')"
  by (simp add: validate_symbol_raises validate_quantity_raises)

subsection \<open>Rounding to a double\<close>

lemma halvings_nonneg: "0 \<le> halvings n r"
  by (induction n arbitrary: r) auto




lemma halvings_eq:
  "2 ^ m \<le> r \<Longrightarrow> r < 2 ^ Suc m \<Longrightarrow> m \<le> n \<Longrightarrow> halvings n r = int m"
proof (induction n arbitrary: r m)
  case 0
  then show ?case by simp
next
  case (Suc n)
  show ?case
  proof (cases m)
    case 0
    with Suc.prems show ?thesis by simp
  next
    case (Suc m')
    have "2 * (1::real) \<le> 2 * 2 ^ m'" by (rule mult_left_mono) simp_all
    also have "\<dots> = 2 ^ m" by (simp add: Suc)
    also have "\<dots> \<le> r" by (rule Suc.prems(1))
    finally have "2 \<le> r" by simp
    moreover from Suc Suc.prems have "2 ^ m' \<le> r / 2" "r / 2 < 2 ^ Suc m'" "m' \<le> n"
      by simp_all
    ultimately show ?thesis
      using Suc.IH [of m' "r / 2"] Suc by simp
  qed
qed


lemma binade_eq:
  assumes "2 ^ m \<le> \<bar>r\<bar>" and "\<bar>r\<bar> < 2 ^ Suc m" and "m \<le> 1024"
  shows "binade r = int m"
proof -
  have "(1::real) \<le> 2 ^ m" by simp
  with assms(1) have "1 \<le> \<bar>r\<bar>" by linarith
  then show ?thesis
    using halvings_eq [OF assms] by (simp add: binade_def)
qed




text \<open>
  Two divisions whose rounded quotient behaves unlike the exact one. The doubles written
  \<open>0.3\<close> and \<open>0.1\<close> have the quotient \<open>2.9999999999999996\<close>, which is not whole,
  and \<open>(2^54 + 4) / 3\<close> is rounded to the whole number \<open>6004799503160663\<close>.
\<close>

lemma round_double_example_fraction:
  "round_double ((5404319552844595 / 2 ^ 54) / (3602879701896397 / 2 ^ 55))
     = Some (6755399441055743 / 2 ^ 51)"
proof -
  let ?r = "(5404319552844595 / 2 ^ 54) / (3602879701896397 / 2 ^ 55) :: real"
  have "binade ?r = int 1"
    by (rule binade_eq) simp_all
  then show ?thesis
    by (simp add: round_double_def round_half_even_def Let_def power_int_minus)
qed

lemma round_double_example_whole:
  "round_double ((2 ^ 54 + 4) / 3) = Some 6004799503160663"
proof -
  let ?r = "(2 ^ 54 + 4) / 3 :: real"
  have "binade ?r = int 52"
    by (rule binade_eq) simp_all
  then show ?thesis
    by (simp add: round_double_def round_half_even_def Let_def)
qed

subsection \<open>The quantity rule\<close>





subsection \<open>Synchronisation and timestamp of every attempt\<close>

text \<open>
  For every client and every state, no order-creation call of \<open>place_limit_order\<close> or
  \<open>place_stop_limit_order\<close> carries a timestamp.
\<close>

lemma limit_and_stop_requests_carry_no_timestamp:
  "\<exists>new. trace (snd (place_limit_order gw symbol side quantity price retries s)) = trace s @ new \<and>
          (\<forall>req. CreateOrder req \<in> set new \<longrightarrow> req_timestamp req = None)"
  "\<exists>new. trace (snd (place_stop_limit_order gw symbol side quantity price stop_price retries s))
            = trace s @ new \<and>
          (\<forall>req. CreateOrder req \<in> set new \<longrightarrow> req_timestamp req = None)"
proof -
  have l: "req_timestamp (fst (build_request gw (LimitOrder symbol side quantity price) t)) = None"
    for t by simp
  have st: "req_timestamp (fst (build_request gw
              (StopLimitOrder symbol side quantity price stop_price) t)) = None"
    for t by simp
  show "\<exists>new. trace (snd (place_limit_order gw symbol side quantity price retries s)) = trace s @ new \<and>
          (\<forall>req. CreateOrder req \<in> set new \<longrightarrow> req_timestamp req = None)"
    unfolding place_limit_order_def
    by (rule retry_loop_requests [of "\<lambda>r. req_timestamp r = None", OF l])
  show "\<exists>new. trace (snd (place_stop_limit_order gw symbol side quantity price stop_price retries s))
            = trace s @ new \<and>
          (\<forall>req. CreateOrder req \<in> set new \<longrightarrow> req_timestamp req = None)"
    unfolding place_stop_limit_order_def
    by (rule retry_loop_requests [of "\<lambda>r. req_timestamp r = None", OF st])
qed

text \<open>
  C9. Each of the three functions synchronises the clock at the start of every attempt,
  and all three retry on the timestamp error \<open>-1021\<close>. On a client whose server time
  moves from 1000 to 5000 between two attempts, the two requests of the market order
  carry the timestamps 1000 and 5000, each computed as \<open>int(local_time_ms + offset)\<close>
  with the offset of its own attempt (10, then 4010). The limit and the stop-limit order
  synchronise as well, the offset ends at 4010, but their calls pass no timestamp: the
  request rejected for its timestamp is sent again unchanged.
\<close>

theorem limit_and_stop_retry_without_timestamp:
  "trace (snd (place_market_order drifting_gateway ''XYZ'' ''BUY'' 1 3 new_bot)) =
     [GetServerTime, TimeRead, TimeRead,
      CreateOrder \<lparr>req_symbol = ''XYZ'', req_side = ''BUY'', req_type = ''MARKET'',
        req_timeInForce = None, req_quantity = 1, req_price = None, req_stopPrice = None,
        req_timestamp = Some 1000\<rparr>,
      Sleep 1,
      GetServerTime, TimeRead, TimeRead,
      CreateOrder \<lparr>req_symbol = ''XYZ'', req_side = ''BUY'', req_type = ''MARKET'',
        req_timeInForce = None, req_quantity = 1, req_price = None, req_stopPrice = None,
        req_timestamp = Some 5000\<rparr>] \<and>
   trace (snd (place_limit_order drifting_gateway ''XYZ'' ''BUY'' 1 50 3 new_bot)) =
     [GetServerTime, TimeRead,
      CreateOrder \<lparr>req_symbol = ''XYZ'', req_side = ''BUY'', req_type = ''LIMIT'',
        req_timeInForce = Some ''GTC'', req_quantity = 1, req_price = Some 50,
        req_stopPrice = None, req_timestamp = None\<rparr>,
      Sleep 1,
      GetServerTime, TimeRead,
      CreateOrder \<lparr>req_symbol = ''XYZ'', req_side = ''BUY'', req_type = ''LIMIT'',
        req_timeInForce = Some ''GTC'', req_quantity = 1, req_price = Some 50,
        req_stopPrice = None, req_timestamp = None\<rparr>] \<and>
   time_offset (snd (place_limit_order drifting_gateway ''XYZ'' ''BUY'' 1 50 3 new_bot)) = 4010 \<and>
   trace (snd (place_stop_limit_order drifting_gateway ''XYZ'' ''BUY'' 1 50 49 3 new_bot)) =
     [GetServerTime, TimeRead,
      CreateOrder \<lparr>req_symbol = ''XYZ'', req_side = ''BUY'', req_type = ''STOP'',
        req_timeInForce = Some ''GTC'', req_quantity = 1, req_price = Some 50,
        req_stopPrice = Some 49, req_timestamp = None\<rparr>,
      Sleep 1,
      GetServerTime, TimeRead,
      CreateOrder \<lparr>req_symbol = ''XYZ'', req_side = ''BUY'', req_type = ''STOP'',
        req_timeInForce = Some ''GTC'', req_quantity = 1, req_price = Some 50,
        req_stopPrice = Some 49, req_timestamp = None\<rparr>] \<and>
   time_offset (snd (place_stop_limit_order drifting_gateway ''XYZ'' ''BUY'' 1 50 49 3 new_bot))
     = 4010"
  by (simp add: place_market_order_def place_limit_order_def place_stop_limit_order_def
        retry_loop.simps submit_attempt_def sync_time_def drifting_gateway_def new_bot_def
        emit_def log_info_def count_ev_def script_then_def py_int_def)

end
